theory Spec2Isabelle
  imports Main "HOL-Library.AList"
begin

section \<open>Inventory diff helper (lib/extend/offer/getDiff.ts)\<close>

text \<open>
  A JavaScript object used as a dictionary is an association list in insertion order.
  The object it denotes is \<open>map_of\<close> of the list, so a key has one value (the first
  entry for it) and \<open>entries\<close> lists every own property once, which is what
  \<^verbatim>\<open>for (const sku in d)\<close> guarded by \<^verbatim>\<open>hasOwnProperty\<close> visits.
\<close>

type_synonym 'v dictionary = "(string \<times> 'v) list"

definition entries :: "'v dictionary \<Rightarrow> (string \<times> 'v) list" where
  "entries d = AList.clearjunk d"

text \<open>
  The value stored under \<^verbatim>\<open>dict\<close> in the offer's data store. Quantities are counts of
  items: integers, of a magnitude on which the arithmetic of JavaScript numbers is the
  arithmetic of integers (below \<open>2 ^ 53\<close>, results included).
\<close>

record ItemsDict =
  our :: "int dictionary"
  their :: "int dictionary"

text \<open>The offer, as far as \<^verbatim>\<open>getDiff\<close> reads it: \<^verbatim>\<open>self.data('dict')\<close>,
  \<open>None\<close> when it is \<^verbatim>\<open>undefined\<close>.\<close>

record TradeOffer =
  data_dict :: "ItemsDict option"

text \<open>
  The accumulator \<^verbatim>\<open>diff\<close> is a plain \<^verbatim>\<open>{}\<close>: what it has no own property for, it
  inherits from \<^verbatim>\<open>Object.prototype\<close>. So the values that arise are numbers, \<^verbatim>\<open>NaN\<close>
  among them, and strings.
\<close>

datatype number = Num int | NaN

datatype jsval = NumberValue number | StringValue string

text \<open>The members of \<^verbatim>\<open>Object.prototype\<close>.\<close>

definition objectPrototype :: "string list" where
  "objectPrototype =
     [''constructor'', ''__defineGetter__'', ''__defineSetter__'', ''hasOwnProperty'',
      ''__lookupGetter__'', ''__lookupSetter__'', ''isPrototypeOf'', ''propertyIsEnumerable'',
      ''toString'', ''valueOf'', ''__proto__'', ''toLocaleString'']"

text \<open>
  Reading \<^verbatim>\<open>diff[sku]\<close>: an own property, else an inherited member, else \<^verbatim>\<open>undefined\<close>.
  Writing \<^verbatim>\<open>diff[sku] = v\<close> makes an own property, except under \<^verbatim>\<open>__proto__\<close>, whose
  setter ignores a value that is no object.
\<close>

datatype 'v property = Undefined | Own 'v | Inherited string

definition getProperty :: "'v dictionary \<Rightarrow> string \<Rightarrow> 'v property" where
  "getProperty obj key =
     (case map_of obj key of
        Some v \<Rightarrow> Own v
      | None \<Rightarrow> if key \<in> set objectPrototype then Inherited key else Undefined)"

definition setProperty :: "string \<Rightarrow> 'v \<Rightarrow> 'v dictionary \<Rightarrow> 'v dictionary" where
  "setProperty key v obj = (if key = ''__proto__'' then obj else AList.update key v obj)"

text \<open>
  An inherited member as a string: the members are native functions (\<^verbatim>\<open>constructor\<close> is
  \<^verbatim>\<open>Object\<close>), and \<^verbatim>\<open>__proto__\<close> reads as the prototype object itself.
\<close>

definition memberText :: "string \<Rightarrow> string" where
  "memberText m =
     (if m = ''__proto__'' then ''[object Object]''
      else ''function '' @ (if m = ''constructor'' then ''Object'' else m) @ ''() { [native code] }'')"

text \<open>An integer as a string, in decimal.\<close>

definition digitChar :: "nat \<Rightarrow> char" where
  "digitChar d = ''0123456789'' ! d"

function digits :: "nat \<Rightarrow> string" where
  "digits n = (if n < 10 then [digitChar n] else digits (n div 10) @ [digitChar (n mod 10)])"
  by pat_completeness auto
termination
  by (relation "measure id") auto

declare digits.simps [simp del]

definition numberText :: "int \<Rightarrow> string" where
  "numberText n = (if n < 0 then CHR ''-'' # digits (nat (- n)) else digits (nat n))"

text \<open>
  \<^verbatim>\<open>diff[sku] || 0\<close>: \<^verbatim>\<open>undefined\<close>, 0, \<^verbatim>\<open>NaN\<close> and the empty string are falsy; an
  inherited member is an object, hence truthy. In the first loop every own property of
  \<^verbatim>\<open>diff\<close> is a number; the second loop may store strings.
\<close>

datatype 'v operand = Value 'v | Member string

definition orZeroNumber :: "number property \<Rightarrow> number operand" where
  "orZeroNumber p =
     (case p of
        Undefined \<Rightarrow> Value (Num 0)
      | Own v \<Rightarrow> (case v of Num n \<Rightarrow> Value (Num n) | NaN \<Rightarrow> Value (Num 0))
      | Inherited m \<Rightarrow> Member m)"

definition orZero :: "jsval property \<Rightarrow> jsval operand" where
  "orZero p =
     (case p of
        Undefined \<Rightarrow> Value (NumberValue (Num 0))
      | Own v \<Rightarrow>
          (case v of
             NumberValue x \<Rightarrow> (case x of Num n \<Rightarrow> Value (NumberValue (Num n))
                                         | NaN \<Rightarrow> Value (NumberValue (Num 0)))
           | StringValue s \<Rightarrow> if s = [] then Value (NumberValue (Num 0)) else Value (StringValue s))
      | Inherited m \<Rightarrow> Member m)"

text \<open>
  \<^verbatim>\<open>x - q\<close> converts \<open>x\<close> to a number: a function or an object gives \<^verbatim>\<open>NaN\<close>.
  \<^verbatim>\<open>x + q\<close> concatenates when \<open>x\<close> is a string, a function or an object.
\<close>

definition jsMinus :: "number operand \<Rightarrow> int \<Rightarrow> number" where
  "jsMinus a q =
     (case a of
        Value v \<Rightarrow> (case v of Num n \<Rightarrow> Num (n - q) | NaN \<Rightarrow> NaN)
      | Member m \<Rightarrow> NaN)"

definition jsPlus :: "jsval operand \<Rightarrow> int \<Rightarrow> jsval" where
  "jsPlus a q =
     (case a of
        Value v \<Rightarrow>
          (case v of
             NumberValue x \<Rightarrow> (case x of Num n \<Rightarrow> NumberValue (Num (n + q))
                                         | NaN \<Rightarrow> NumberValue NaN)
           | StringValue s \<Rightarrow> StringValue (s @ numberText q))
      | Member m \<Rightarrow> StringValue (memberText m @ numberText q))"

text \<open>The two loops.\<close>

definition subtractOur :: "int dictionary \<Rightarrow> number dictionary \<Rightarrow> number dictionary" where
  "subtractOur ours diff =
     fold (\<lambda>(sku, q) acc. setProperty sku (jsMinus (orZeroNumber (getProperty acc sku)) q) acc)
          (entries ours) diff"

definition addTheir :: "int dictionary \<Rightarrow> jsval dictionary \<Rightarrow> jsval dictionary" where
  "addTheir theirs diff =
     fold (\<lambda>(sku, q) acc. setProperty sku (jsPlus (orZero (getProperty acc sku)) q) acc)
          (entries theirs) diff"

text \<open>
  The exported function; \<open>None\<close> is the \<^verbatim>\<open>null\<close> it returns. The second loop goes on
  with the object the first one filled.
\<close>

definition getDiff :: "TradeOffer \<Rightarrow> jsval dictionary option" where
  "getDiff self =
     (case data_dict self of
        None \<Rightarrow> None
      | Some dict \<Rightarrow>
          Some (addTheir (their dict)
                  (map (\<lambda>(sku, n). (sku, NumberValue n)) (subtractOur (our dict) []))))"

text \<open>The quantity a side dictionary has for a key, 0 when it has none.\<close>

definition quantity :: "int dictionary \<Rightarrow> string \<Rightarrow> int" where
  "quantity d k = (case map_of d k of None \<Rightarrow> 0 | Some q \<Rightarrow> q)"

definition safeQuantities :: "int dictionary \<Rightarrow> bool" where
  "safeQuantities d = list_all (\<lambda>(k, q). \<bar>q\<bar> \<le> 2 ^ 52) d"

section \<open>Reputation aggregator (class Bans)\<close>

subsection \<open>Promises, rejections and effects\<close>

text \<open>
  The value a promise is rejected with, or a handler throws. \<open>AxiosError\<close> carries the
  error code of the HTTP client (a network failure, a bad status, \<^verbatim>\<open>ERR_CANCELED\<close> when
  the request's signal aborts); \<open>AbortSignal\<close> is a value for which
  \<^verbatim>\<open>err instanceof AbortSignal\<close> holds. Every such value is truthy.
\<close>

datatype error =
    AxiosError string
  | AbortSignal
  | TypeError string
  | Error string

definition instanceofAbortSignal :: "error \<Rightarrow> bool" where
  "instanceofAbortSignal err = (case err of AbortSignal \<Rightarrow> True | _ \<Rightarrow> False)"

text \<open>How a promise ends: \<open>Pending\<close> is a promise that is never settled.\<close>

datatype 'a promise = Pending | Fulfilled 'a | Rejected error

datatype check = ListedUntrusted | MptfBanned | SteamRepMarked | BptfBanned

datatype endpoint = RepAutobotTf_api | UntrustedList | MarketplaceTf_api | SteamRep_api | BackpackTf_api

datatype level = Warn | Debug

text \<open>
  The effects of a run: a fallback check method is invoked, an HTTP request is issued,
  a line is logged (a message, or an error object passed as the only argument).
\<close>

datatype event =
    Invoked check
  | Request endpoint
  | Log level string
  | LogError level error

subsection \<open>Results and responses\<close>

text \<open>
  \<^verbatim>\<open>SiteResult\<close>. \<open>sr_content = None\<close> is a result without \<^verbatim>\<open>content\<close>
  (\<^verbatim>\<open>undefined\<close>). \<^verbatim>\<open>isBanned\<close> is only ever tested for truthiness, so a falsy
  non-boolean is recorded as \<open>False\<close>.
\<close>

record SiteResult =
  sr_isBanned :: bool
  sr_content :: "string option"

text \<open>\<^verbatim>\<open>Contents\<close>: site name to text; a property may hold \<^verbatim>\<open>undefined\<close> (\<open>None\<close>).\<close>

type_synonym Contents = "string option dictionary"

text \<open>\<^verbatim>\<open>IsBanned\<close>, the result of the aggregator.\<close>

record IsBanned =
  ib_isBanned :: bool
  ib_contents :: "Contents option"

text \<open>\<^verbatim>\<open>SiteResult | 'Error'\<close>, which can also be \<^verbatim>\<open>null\<close>.\<close>

datatype SiteEntry = SiteError | SiteNull | Site SiteResult

record RepAutobotTf =
  rep_isBanned :: bool
  rep_contents :: "SiteEntry dictionary"
  rep_isBannedExcludeMptf :: bool
  rep_obtained_time :: nat
  rep_last_update :: nat
  rep_with_error :: bool

record MptfBan =
  ban_time :: nat
  ban_type :: string

record MptfResult =
  mr_steamid :: string
  mr_id :: nat
  mr_name :: string
  mr_banned :: "bool option"
  mr_ban :: "MptfBan option"
  mr_seller :: bool

text \<open>\<open>mptf_results = None\<close>: the \<^verbatim>\<open>results\<close> property is not an array.\<close>

record MptfGetUserBan =
  mptf_success :: bool
  mptf_results :: "MptfResult list option"

record Reputation =
  rep_full :: "string option"
  rep_summary :: "string option"

record Details =
  flags_status :: string
  steamID32 :: "string option"
  steamID64 :: "string option"
  steamrepurl :: "string option"
  reputation :: "Reputation option"

record SteamRep =
  steamrep :: Details

record UntrustedJsonSteamidsContent =
  reason :: string
  source :: string
  time :: nat

record UntrustedJson =
  last_update :: nat
  steamids :: "UntrustedJsonSteamidsContent dictionary"

text \<open>
  Modelled from the spec: the interface \<^verbatim>\<open>BPTFGetUserInfo\<close> is declared in
  \<^verbatim>\<open>classes/MyHandler/interfaces\<close>, which is not among the sources. The spec says the
  user info has a ban sub-object under an "all" or an "all features" field, with a
  reason; the fields below are the ones \<^verbatim>\<open>isBptfBanned\<close> reads.
\<close>

record BptfBan =
  bptf_reason :: "string option"

record BptfBans =
  bans_all :: "BptfBan option"
  bans_all_features :: "BptfBan option"
  bans_steamrep_scammer :: "nat option"

record BptfUser =
  bans :: "BptfBans option"

record BPTFGetUserInfo =
  users :: "BptfUser dictionary"

subsection \<open>Configuration, instance and environment\<close>

text \<open>\<^verbatim>\<open>bot.options\<close>, as far as the aggregator reads it.\<close>

record Options =
  bptfApiKey :: string
  mptfApiKey :: string
  checkMptfBanned :: bool

datatype showLog = ShowAll | ShowBanned

record BansEntry =
  entry_bot :: Options
  entry_userID :: "string option"
  entry_steamID :: string
  entry_showLog :: "showLog option"

text \<open>
  An instance of \<^verbatim>\<open>Bans\<close>: the five private cached flags (\<open>None\<close> is \<^verbatim>\<open>null\<close>),
  the read-only fields, and the effects performed so far.
\<close>

record Bans =
  priv_isBptfBanned :: "bool option"
  priv_isBptfSteamRepBanned :: "bool option"
  priv_isSteamRepBanned :: "bool option"
  priv_isCommunityBanned :: "bool option"
  priv_isMptfBanned :: "bool option"
  bot :: Options
  userID :: "string option"
  steamID :: string
  showLog :: "showLog option"
  trace :: "event list"

text \<open>The constructor; \<^verbatim>\<open>showLog\<close> defaults to \<^verbatim>\<open>'all'\<close>.\<close>

definition newBans :: "BansEntry \<Rightarrow> Bans" where
  "newBans e =
     \<lparr>priv_isBptfBanned = None, priv_isBptfSteamRepBanned = None, priv_isSteamRepBanned = None,
      priv_isCommunityBanned = None, priv_isMptfBanned = None,
      bot = entry_bot e, userID = entry_userID e, steamID = entry_steamID e,
      showLog = (case entry_showLog e of None \<Rightarrow> Some ShowAll | Some m \<Rightarrow> Some m),
      trace = []\<rparr>"

datatype attempt = First | Retry

text \<open>
  What the HTTP client answers to each request of one run: \<open>Inl\<close> a rejection,
  \<open>Inr\<close> the \<^verbatim>\<open>data\<close> of the response. The untrusted list may be requested twice. \<open>bptf_settles_first\<close> says whether the
  backpack.tf request is answered before the steamrep one: the steamrep handler reads a
  flag the backpack.tf handler writes.
\<close>

record Http =
  resp_autobot :: "error + RepAutobotTf"
  resp_untrusted_first :: "error + UntrustedJson"
  resp_untrusted_retry :: "error + UntrustedJson"
  resp_mptf :: "error + MptfGetUserBan option"
  resp_steamrep :: "error + SteamRep"
  resp_bptf :: "error + BPTFGetUserInfo"
  bptf_settles_first :: bool

definition resp_untrusted :: "Http \<Rightarrow> attempt \<Rightarrow> error + UntrustedJson" where
  "resp_untrusted http attempt =
     (case attempt of First \<Rightarrow> resp_untrusted_first http | Retry \<Rightarrow> resp_untrusted_retry http)"

definition emit :: "event list \<Rightarrow> Bans \<Rightarrow> Bans" where
  "emit es self = self\<lparr>trace := trace self @ es\<rparr>"

subsection \<open>Strings\<close>

text \<open>
  \<^verbatim>\<open>toLowerCase\<close> on the ASCII letters, and \<^verbatim>\<open>indexOf\<close>: the index of the first
  occurrence, \<open>- 1\<close> when there is none.
\<close>

definition toLowerChar :: "char \<Rightarrow> char" where
  "toLowerChar c =
     (let n = (of_char c :: nat) in if 65 \<le> n \<and> n \<le> 90 then char_of (n + 32) else c)"

definition toLowerCase :: "string \<Rightarrow> string" where
  "toLowerCase s = map toLowerChar s"

fun indexOfFrom :: "nat \<Rightarrow> string \<Rightarrow> string \<Rightarrow> int" where
  "indexOfFrom i [] pat = (if pat = [] then int i else - 1)"
| "indexOfFrom i (c # cs) pat =
     (if take (length pat) (c # cs) = pat then int i else indexOfFrom (Suc i) cs pat)"

definition indexOf :: "string \<Rightarrow> string \<Rightarrow> int" where
  "indexOf s pat = indexOfFrom 0 s pat"

text \<open>A value inside a template literal: \<^verbatim>\<open>undefined\<close> prints as its name.\<close>

definition interpolate :: "string option \<Rightarrow> string" where
  "interpolate v = (case v of None \<Rightarrow> ''undefined'' | Some s \<Rightarrow> s)"

subsection \<open>The primary source\<close>

definition resultsFromAutobot :: "Http \<Rightarrow> Bans \<Rightarrow> RepAutobotTf promise \<times> Bans" where
  "resultsFromAutobot http self =
     (case resp_autobot http of
        Inr data \<Rightarrow> (Fulfilled data, emit [Request RepAutobotTf_api] self)
      | Inl err \<Rightarrow> (Rejected err, emit [Request RepAutobotTf_api] self))"

subsection \<open>The four fallback checks\<close>

text \<open>
  \<^verbatim>\<open>isBptfBanned\<close>. Without an API key it returns \<^verbatim>\<open>undefined\<close> at once, which the
  join takes as a fulfilled value. A user missing from the response makes the
  \<^verbatim>\<open>then\<close> handler throw, which the \<^verbatim>\<open>catch\<close> handler receives like a failed request.
\<close>

definition bptfFailed :: "error \<Rightarrow> Bans \<Rightarrow> SiteResult option promise \<times> Bans" where
  "bptfFailed err self =
     (Fulfilled None,
      if showLog self \<noteq> None
      then emit [Log Warn ''Failed to get data from backpack.tf'', LogError Debug err] self
      else self)"

definition banReason :: "BptfBans option \<Rightarrow> string" where
  "banReason b =
     (case b of
        None \<Rightarrow> []
      | Some bs \<Rightarrow>
          (case (case bans_all bs of None \<Rightarrow> None | Some a \<Rightarrow> bptf_reason a) of
             Some r \<Rightarrow> r
           | None \<Rightarrow>
               (case (case bans_all_features bs of None \<Rightarrow> None | Some a \<Rightarrow> bptf_reason a) of
                  Some r \<Rightarrow> r
                | None \<Rightarrow> [])))"

definition isBptfBanned :: "Http \<Rightarrow> Bans \<Rightarrow> SiteResult option promise \<times> Bans" where
  "isBptfBanned http self0 =
     (let self = emit [Invoked BptfBanned] self0 in
      if bptfApiKey (bot self) = [] then (Fulfilled None, self)
      else
        (let self = emit [Request BackpackTf_api] self in
         case resp_bptf http of
           Inl err \<Rightarrow> bptfFailed err self
         | Inr data \<Rightarrow>
             (case map_of (users data) (steamID self) of
                None \<Rightarrow> bptfFailed (TypeError ''user is undefined'') self
              | Some user \<Rightarrow>
                  (let banned =
                         (case bans user of
                            None \<Rightarrow> False
                          | Some bs \<Rightarrow> bans_all bs \<noteq> None \<or> bans_all_features bs \<noteq> None);
                       reasonText = banReason (bans user)
                   in (Fulfilled (Some \<lparr>sr_isBanned = banned, sr_content = Some reasonText\<rparr>),
                       self\<lparr>priv_isBptfBanned := Some banned,
                            priv_isBptfSteamRepBanned :=
                              Some (case bans user of
                                      None \<Rightarrow> False
                                    | Some bs \<Rightarrow> bans_steamrep_scammer bs = Some 1)\<rparr>)))))"

text \<open>
  \<^verbatim>\<open>isSteamRepMarked\<close>. With no \<^verbatim>\<open>reputation\<close> in the response the optional chain
  \<^verbatim>\<open>reputation?.summary.toLowerCase().indexOf('scammer')\<close> is \<^verbatim>\<open>undefined\<close>, which differs
  from \<^verbatim>\<open>-1\<close>. With a \<^verbatim>\<open>reputation\<close> that has no \<^verbatim>\<open>summary\<close> the call of
  \<^verbatim>\<open>toLowerCase\<close> throws, and the \<^verbatim>\<open>catch\<close> handler runs.
\<close>

definition steamRepFailed :: "error \<Rightarrow> Bans \<Rightarrow> SiteResult option promise \<times> Bans" where
  "steamRepFailed err self0 =
     (let self = (if showLog self0 \<noteq> None
                  then emit [Log Warn ''Failed to get data from SteamRep'', LogError Debug err] self0
                  else self0)
      in case priv_isBptfSteamRepBanned self of
           Some b \<Rightarrow> (Fulfilled (Some \<lparr>sr_isBanned = b, sr_content = None\<rparr>), self)
         | None \<Rightarrow> (Fulfilled None, self))"

definition isSteamRepMarked :: "Http \<Rightarrow> Bans \<Rightarrow> SiteResult option promise \<times> Bans" where
  "isSteamRepMarked http self0 =
     (let self = emit [Invoked SteamRepMarked, Request SteamRep_api] self0 in
      case resp_steamrep http of
        Inl err \<Rightarrow> steamRepFailed err self
      | Inr data \<Rightarrow>
          (case reputation (steamrep data) of
             None \<Rightarrow>
               (Fulfilled (Some \<lparr>sr_isBanned = True, sr_content = Some []\<rparr>),
                self\<lparr>priv_isSteamRepBanned := Some True\<rparr>)
           | Some rep \<Rightarrow>
               (case rep_summary rep of
                  None \<Rightarrow> steamRepFailed (TypeError ''summary is undefined'') self
                | Some summary \<Rightarrow>
                    (let isSteamRepBanned = (indexOf (toLowerCase summary) ''scammer'' \<noteq> - 1);
                         fullRepInfo = (case rep_full rep of None \<Rightarrow> [] | Some f \<Rightarrow> f)
                     in (Fulfilled (Some \<lparr>sr_isBanned = isSteamRepBanned,
                                          sr_content = Some fullRepInfo\<rparr>),
                         self\<lparr>priv_isSteamRepBanned := Some isSteamRepBanned\<rparr>)))))"

text \<open>
  \<^verbatim>\<open>isMptfBanned\<close>. The loop over \<^verbatim>\<open>results\<close> stops at the first entry for the subject.
\<close>

fun scanResults :: "MptfResult list \<Rightarrow> Bans \<Rightarrow> SiteResult option promise \<times> Bans" where
  "scanResults [] self = (Fulfilled (Some \<lparr>sr_isBanned = False, sr_content = None\<rparr>), self)"
| "scanResults (r # rs) self =
     (if steamID self = mr_steamid r
      then
        (let banned = (case mr_banned r of None \<Rightarrow> False | Some b \<Rightarrow> b)
         in (Fulfilled (Some \<lparr>sr_isBanned = banned,
                              sr_content =
                                Some (case mr_ban r of None \<Rightarrow> [] | Some b \<Rightarrow> ban_type b)\<rparr>),
             self\<lparr>priv_isMptfBanned := Some banned\<rparr>))
      else scanResults rs self)"

definition isMptfBanned :: "Http \<Rightarrow> Bans \<Rightarrow> SiteResult option promise \<times> Bans" where
  "isMptfBanned http self0 =
     (let self = emit [Invoked MptfBanned] self0 in
      if \<not> checkMptfBanned (bot self) then (Fulfilled None, self)
      else if mptfApiKey (bot self) = []
      then (Rejected (Error ''Marketplace.tf API key was not set.''), self)
      else
        (let self = emit [Request MarketplaceTf_api] self in
         case resp_mptf http of
           Inl err \<Rightarrow>
             (Fulfilled None,
              if showLog self \<noteq> None
              then emit [Log Warn ''Failed to get data from Marketplace.tf''] self
              else self)
         | Inr data \<Rightarrow>
             (case (case data of None \<Rightarrow> None | Some d \<Rightarrow> mptf_results d) of
                None \<Rightarrow>
                  (Fulfilled None, emit [Log Debug ''Marketplace.tf returned invalid data''] self)
              | Some results \<Rightarrow> scanResults results self)))"

text \<open>
  \<^verbatim>\<open>isListedUntrusted\<close>. In the retry branch the \<^verbatim>\<open>catch\<close> handler returns the promise
  of the second call and never calls \<^verbatim>\<open>resolve\<close>: the promise of the first call stays
  pending, whatever the second call does.
\<close>

function isListedUntrusted :: "attempt \<Rightarrow> Http \<Rightarrow> Bans \<Rightarrow> SiteResult option promise \<times> Bans" where
  "isListedUntrusted attempt http self0 =
     (let self = emit [Invoked ListedUntrusted, Request UntrustedList] self0 in
      case resp_untrusted http attempt of
        Inr data \<Rightarrow>
          (case map_of (steamids data) (steamID self) of
             None \<Rightarrow> (Fulfilled (Some \<lparr>sr_isBanned = False, sr_content = None\<rparr>), self)
           | Some results \<Rightarrow>
               (Fulfilled (Some \<lparr>sr_isBanned = True,
                                 sr_content = Some (''Reason: '' @ reason results @
                                                    '' - Source: '' @ source results)\<rparr>),
                self\<lparr>priv_isCommunityBanned := Some True\<rparr>))
      | Inl err \<Rightarrow>
          (if instanceofAbortSignal err \<and> attempt \<noteq> Retry
           then (Pending, snd (isListedUntrusted Retry http self))
           else
             (Fulfilled None,
              if showLog self \<noteq> None
              then emit [Log Warn ''Failed to get data from Github'', LogError Debug err] self
              else self)))"
  by pat_completeness auto
termination
  by (relation "measure (\<lambda>(attempt, http, self). case attempt of First \<Rightarrow> 1 | Retry \<Rightarrow> 0)")
     (auto split: attempt.splits)

declare isListedUntrusted.simps [simp del]

subsection \<open>The aggregator\<close>

text \<open>\<^verbatim>\<open>logIsBanned\<close>: warn when banned, debug when everything is shown, else nothing.\<close>

definition logIsBanned :: "IsBanned \<Rightarrow> Bans \<Rightarrow> Bans" where
  "logIsBanned result self =
     (case showLog self of
        None \<Rightarrow> self
      | Some mode \<Rightarrow>
          (let log = (if ib_isBanned result then Some Warn
                      else if mode = ShowAll then Some Debug
                      else None)
           in case log of
                None \<Rightarrow> self
              | Some lvl \<Rightarrow> emit [Log lvl (''Bans result for '' @ steamID self @ '':'')] self))"

text \<open>The result the \<^verbatim>\<open>catch\<close> block starts from: always deny by default.\<close>

definition denyByDefault :: IsBanned where
  "denyByDefault =
     \<lparr>ib_isBanned = True,
      ib_contents =
        Some [(''default-rule'', Some ''all offline and online ban checks failed. internet issues?'')]\<rparr>"

record ResultSources =
  src_bptf :: "SiteResult option"
  src_mptf :: "SiteResult option"
  src_steamrep :: "SiteResult option"
  src_untrusted :: "SiteResult option"

text \<open>The text stored for a site: \<^verbatim>\<open>banned\<close> with the content unless it is empty, or \<^verbatim>\<open>clean\<close>.\<close>

definition siteText :: "SiteResult \<Rightarrow> string" where
  "siteText r =
     (if sr_isBanned r
      then ''banned'' @ (if sr_content r \<noteq> Some [] then '' - '' @ interpolate (sr_content r) else [])
      else ''clean'')"

definition validResults :: "ResultSources \<Rightarrow> SiteResult list" where
  "validResults results =
     List.map_filter id [src_bptf results, src_mptf results, src_steamrep results, src_untrusted results]"

definition finalize :: "ResultSources \<Rightarrow> Bans \<Rightarrow> IsBanned \<times> Bans" where
  "finalize results self =
     (let haveResults = (length (validResults results) > 0);
          result =
            (if haveResults
             then
               (let c0 = [];
                    c1 = (case src_bptf results of
                            Some r \<Rightarrow> AList.update ''Backpack.tf'' (Some (siteText r)) c0
                          | None \<Rightarrow> c0);
                    c2 = (case src_mptf results of
                            Some r \<Rightarrow>
                              if checkMptfBanned (bot self)
                              then AList.update ''Marketplace.tf'' (Some (siteText r)) c1
                              else c1
                          | None \<Rightarrow> c1);
                    c3 = (case src_untrusted results of
                            Some r \<Rightarrow> AList.update ''TF2Autobot'' (Some (siteText r)) c2
                          | None \<Rightarrow> c2);
                    c4 = (case src_steamrep results of
                            Some r \<Rightarrow> AList.update ''Steamrep.com:'' (Some (siteText r)) c3
                          | None \<Rightarrow> c3)
                in \<lparr>ib_isBanned = list_ex sr_isBanned (validResults results), ib_contents = Some c4\<rparr>)
             else denyByDefault)
      in (result, logIsBanned result self))"

text \<open>
  \<^verbatim>\<open>Promise.all\<close> of the four checks: rejected as soon as one is rejected, fulfilled with
  the four values when all are fulfilled, pending otherwise.
\<close>

definition isRejected :: "'a promise \<Rightarrow> bool" where
  "isRejected p = (case p of Rejected _ \<Rightarrow> True | _ \<Rightarrow> False)"

definition promiseAll :: "'a promise \<Rightarrow> 'a promise \<Rightarrow> 'a promise \<Rightarrow> 'a promise \<Rightarrow>
    ('a \<times> 'a \<times> 'a \<times> 'a) promise" where
  "promiseAll a b c d =
     (case find isRejected [a, b, c, d] of
        Some (Rejected err) \<Rightarrow> Rejected err
      | _ \<Rightarrow>
          (case (a, b, c, d) of
             (Fulfilled w, Fulfilled x, Fulfilled y, Fulfilled z) \<Rightarrow> Fulfilled (w, x, y, z)
           | _ \<Rightarrow> Pending))"

text \<open>\<^verbatim>\<open>[...].some(b => b)\<close> over the cached flags: \<^verbatim>\<open>null\<close> and \<^verbatim>\<open>false\<close> are falsy.\<close>

definition truthy :: "bool option \<Rightarrow> bool" where
  "truthy b = (b = Some True)"

definition someCached :: "Bans \<Rightarrow> bool" where
  "someCached self =
     list_ex truthy
       [priv_isBptfBanned self,
        priv_isBptfSteamRepBanned self,
        priv_isSteamRepBanned self,
        priv_isCommunityBanned self,
        (if checkMptfBanned (bot self) then priv_isMptfBanned self else Some False)]"

text \<open>The \<^verbatim>\<open>reduce\<close> over the sites of the primary response.\<close>

definition bannedContents :: "SiteEntry dictionary \<Rightarrow> Contents" where
  "bannedContents cs =
     fold (\<lambda>(site, entry) obj.
             case entry of
               Site r \<Rightarrow> if sr_isBanned r then AList.update site (sr_content r) obj else obj
             | _ \<Rightarrow> obj)
          (entries cs) []"

text \<open>
  The four checks are started together (\<open>fallbackChecks\<close>); their handlers run as the
  answers arrive, here in the order untrusted list, marketplace, then backpack.tf and
  steamrep in the order the environment gives. A rejection of the join reaches the
  \<^verbatim>\<open>catch\<close> handler before any answer has arrived, so that handler reads the cached
  flags as they were when \<^verbatim>\<open>isBanned\<close> was called. The instance returned is the one
  left when every handler has run.
\<close>

definition fallbackChecks :: "Http \<Rightarrow> Bans \<Rightarrow>
    (SiteResult option promise \<times> SiteResult option promise \<times>
     SiteResult option promise \<times> SiteResult option promise) \<times> Bans" where
  "fallbackChecks http self =
     (let (p_untrusted, s1) = isListedUntrusted First http self;
          (p_mptf, s2) = isMptfBanned http s1
      in if bptf_settles_first http
         then (let (p_bptf, s3) = isBptfBanned http s2;
                   (p_steamrep, s4) = isSteamRepMarked http s3
               in ((p_untrusted, p_mptf, p_steamrep, p_bptf), s4))
         else (let (p_steamrep, s3) = isSteamRepMarked http s2;
                   (p_bptf, s4) = isBptfBanned http s3
               in ((p_untrusted, p_mptf, p_steamrep, p_bptf), s4)))"

definition isBanned :: "Http \<Rightarrow> Bans \<Rightarrow> IsBanned promise \<times> Bans" where
  "isBanned http self0 =
     (case resultsFromAutobot http self0 of
        (Fulfilled fromRepAutobot, self) \<Rightarrow>
          (let banned = (if checkMptfBanned (bot self) then rep_isBanned fromRepAutobot
                         else rep_isBannedExcludeMptf fromRepAutobot);
               cs = bannedContents (rep_contents fromRepAutobot)
           in (Fulfilled \<lparr>ib_isBanned = banned, ib_contents = Some cs\<rparr>, self))
      | (Pending, self) \<Rightarrow> (Pending, self)
      | (Rejected _, self) \<Rightarrow>
          (let ((p_untrusted, p_mptf, p_steamrep, p_bptf), s4) = fallbackChecks http self
           in case promiseAll p_untrusted p_mptf p_steamrep p_bptf of
                Fulfilled (r_untrusted, r_mptf, r_steamrep, r_bptf) \<Rightarrow>
                  (let (result, s5) =
                         finalize \<lparr>src_bptf = r_bptf, src_mptf = r_mptf,
                                   src_steamrep = r_steamrep, src_untrusted = r_untrusted\<rparr> s4
                   in (Fulfilled result, s5))
              | Pending \<Rightarrow> (Pending, s4)
              | Rejected err \<Rightarrow>
                  (if \<not> someCached self
                   then (Fulfilled \<lparr>ib_isBanned = False, ib_contents = None\<rparr>, s4)
                   else (Rejected err, s4))))"

text \<open>
  The join of the four checks started from an instance:
  \<^verbatim>\<open>Promise.all([isListedUntrusted(), isMptfBanned(), isSteamRepMarked(), isBptfBanned()])\<close>.
\<close>

definition joined :: "Http \<Rightarrow> Bans \<Rightarrow>
    (SiteResult option \<times> SiteResult option \<times> SiteResult option \<times> SiteResult option) promise" where
  "joined http self = (case fst (fallbackChecks http self) of (a, b, c, d) \<Rightarrow> promiseAll a b c d)"

section \<open>Price-feed socket client (lib/pricer/pricestf/prices-tf-socket-manager.ts)\<close>

text \<open>
  The listeners \<^verbatim>\<open>init\<close> registers, and one registered from outside through \<^verbatim>\<open>on\<close>,
  known by a name only.
\<close>

datatype listener = SocketConnect | SocketError | SocketDisconnected | External string

record ReconnectingWebSocket =
  url :: string
  maxEnqueuedMessages :: nat
  startClosed :: bool
  listeners :: "(string \<times> listener) list"

text \<open>What \<^verbatim>\<open>logger.error\<close> is given besides its message: a thrown value or the error event.\<close>

datatype payload = OfError error | OfEvent string

datatype action =
    WsClose
  | WsReconnect
  | SetupToken
  | LogDebug string
  | LoggerError string payload
  | Handled string

datatype ws_event = OpenEvent | ErrorEvent string | CloseEvent

record PricesTfSocketManager =
  ws :: "ReconnectingWebSocket option"
  effects :: "action list"

definition act :: "action list \<Rightarrow> PricesTfSocketManager \<Rightarrow> PricesTfSocketManager" where
  "act as self = self\<lparr>effects := effects self @ as\<rparr>"

definition shutDown :: "PricesTfSocketManager \<Rightarrow> PricesTfSocketManager" where
  "shutDown self =
     (case ws self of
        Some w \<Rightarrow> (act [WsClose] self)\<lparr>ws := None\<rparr>
      | None \<Rightarrow> self)"

definition init :: "PricesTfSocketManager \<Rightarrow> PricesTfSocketManager" where
  "init self0 =
     (let self = shutDown self0
      in self\<lparr>ws := Some \<lparr>url = ''wss://ws.prices.tf'', maxEnqueuedMessages = 0, startClosed = True,
                           listeners = [(''open'', SocketConnect), (''error'', SocketError),
                                        (''close'', SocketDisconnected)]\<rparr>\<rparr>)"

text \<open>\<^verbatim>\<open>connect\<close> and \<^verbatim>\<open>on\<close> read \<^verbatim>\<open>this.ws\<close> unguarded: without one they throw.\<close>

definition connect :: "PricesTfSocketManager \<Rightarrow> error + PricesTfSocketManager" where
  "connect self =
     (case ws self of
        None \<Rightarrow> Inl (TypeError ''ws is undefined'')
      | Some w \<Rightarrow> Inr (act [WsReconnect] self))"

definition on :: "string \<Rightarrow> string \<Rightarrow> PricesTfSocketManager \<Rightarrow> error + PricesTfSocketManager" where
  "on name handler self =
     (case ws self of
        None \<Rightarrow> Inl (TypeError ''ws is undefined'')
      | Some w \<Rightarrow> Inr (self\<lparr>ws := Some (w\<lparr>listeners := listeners w @ [(name, External handler)]\<rparr>)\<rparr>))"

text \<open>
  The listener for \<^verbatim>\<open>error\<close>, given the message of the event and how the promise of
  \<^verbatim>\<open>api.setupToken()\<close> ends. In the \<^verbatim>\<open>catch\<close> handler \<^verbatim>\<open>this.socketUnauthorized()\<close> only
  builds a function and does not call it, so nothing is logged by it.
\<close>

definition socketError :: "string \<Rightarrow> unit promise \<Rightarrow> PricesTfSocketManager \<Rightarrow>
    error + PricesTfSocketManager" where
  "socketError message token self0 =
     (case ws self0 of
        None \<Rightarrow> Inl (TypeError ''ws is undefined'')
      | Some w \<Rightarrow>
          (let self = act [WsClose] self0 in
           if message = ''Unexpected server response: 401''
           then
             (let self = act [SetupToken] self in
              case token of
                Fulfilled u \<Rightarrow> Inr (act [WsReconnect] self)
              | Rejected e \<Rightarrow>
                  Inr (act [WsReconnect,
                            LoggerError ''Error in prices.tf socket manager'' (OfError e)] self)
              | Pending \<Rightarrow> Inr self)
           else Inr (act [LoggerError ''Error in prices.tf socket manager'' (OfEvent message)] self)))"

definition runListener :: "listener \<Rightarrow> ws_event \<Rightarrow> unit promise \<Rightarrow> PricesTfSocketManager \<Rightarrow>
    error + PricesTfSocketManager" where
  "runListener l ev token self =
     (case l of
        SocketConnect \<Rightarrow> Inr (act [LogDebug ''Connected to socket server''] self)
      | SocketDisconnected \<Rightarrow> Inr (act [LogDebug ''Disconnected from socket server''] self)
      | SocketError \<Rightarrow>
          (case ev of
             ErrorEvent message \<Rightarrow> socketError message token self
           | _ \<Rightarrow> Inr self)
      | External handler \<Rightarrow> Inr (act [Handled handler] self))"

fun runListeners :: "listener list \<Rightarrow> ws_event \<Rightarrow> unit promise \<Rightarrow> PricesTfSocketManager \<Rightarrow>
    error + PricesTfSocketManager" where
  "runListeners [] ev token self = Inr self"
| "runListeners (l # ls) ev token self =
     (case runListener l ev token self of
        Inl e \<Rightarrow> Inl e
      | Inr self' \<Rightarrow> runListeners ls ev token self')"

definition eventName :: "ws_event \<Rightarrow> string" where
  "eventName ev = (case ev of OpenEvent \<Rightarrow> ''open'' | ErrorEvent m \<Rightarrow> ''error'' | CloseEvent \<Rightarrow> ''close'')"

text \<open>The socket emits an event: the listeners registered under its name run in order.\<close>

definition receive :: "ws_event \<Rightarrow> unit promise \<Rightarrow> PricesTfSocketManager \<Rightarrow>
    error + PricesTfSocketManager" where
  "receive ev token self =
     (case ws self of
        None \<Rightarrow> Inr self
      | Some w \<Rightarrow>
          runListeners (map snd (filter (\<lambda>(name, l). name = eventName ev) (listeners w))) ev token self)"

section \<open>Concrete runs\<close>

definition someOptions :: Options where
  "someOptions = \<lparr>bptfApiKey = ''bptf-key'', mptfApiKey = ''mptf-key'', checkMptfBanned = True\<rparr>"

definition subject :: Bans where
  "subject =
     newBans \<lparr>entry_bot = someOptions, entry_userID = Some ''1'',
              entry_steamID = ''76561198000000001'', entry_showLog = None\<rparr>"

text \<open>Every request fails with a network error.\<close>

definition offline :: Http where
  "offline =
     \<lparr>resp_autobot = Inl (AxiosError ''ECONNREFUSED''),
      resp_untrusted_first = Inl (AxiosError ''ECONNREFUSED''),
      resp_untrusted_retry = Inl (AxiosError ''ECONNREFUSED''),
      resp_mptf = Inl (AxiosError ''ECONNREFUSED''),
      resp_steamrep = Inl (AxiosError ''ECONNREFUSED''),
      resp_bptf = Inl (AxiosError ''ECONNREFUSED''),
      bptf_settles_first = True\<rparr>"

text \<open>The untrusted list names the subject.\<close>

definition listed :: UntrustedJson where
  "listed =
     \<lparr>last_update = 1700000000,
      steamids = [(''76561198000000001'', \<lparr>reason = ''scam'', source = ''report'', time = 1690000000\<rparr>)]\<rparr>"

text \<open>A steamrep answer without a \<^verbatim>\<open>reputation\<close>, and one with a clean summary.\<close>

definition noReputation :: SteamRep where
  "noReputation =
     \<lparr>steamrep = \<lparr>flags_status = ''notfound'', steamID32 = None, steamID64 = None,
                  steamrepurl = None, reputation = None\<rparr>\<rparr>"

text \<open>An answer of the primary service.\<close>

definition primaryAnswer :: RepAutobotTf where
  "primaryAnswer =
     \<lparr>rep_isBanned = True,
      rep_contents =
        [(''TF2Autobot'', Site \<lparr>sr_isBanned = False, sr_content = Some ''clean''\<rparr>),
         (''Marketplace.tf'', Site \<lparr>sr_isBanned = True, sr_content = Some ''seller ban''\<rparr>),
         (''Backpack.tf'', SiteNull),
         (''Steamrep.com'', SiteError)],
      rep_isBannedExcludeMptf = False,
      rep_obtained_time = 1700000000, rep_last_update = 1700000000, rep_with_error = True\<rparr>"

text \<open>A marketplace answer about somebody else.\<close>

definition otherSeller :: MptfGetUserBan where
  "otherSeller =
     \<lparr>mptf_success = True,
      mptf_results =
        Some [\<lparr>mr_steamid = ''76561198000000002'', mr_id = 7, mr_name = ''other'',
               mr_banned = Some True, mr_ban = Some \<lparr>ban_time = 1, ban_type = ''seller''\<rparr>,
               mr_seller = True\<rparr>]\<rparr>"

definition freshSocket :: PricesTfSocketManager where
  "freshSocket = \<lparr>ws = None, effects = []\<rparr>"

section \<open>Properties of the diff helper\<close>

lemma fold_setProperty_lookup:
  "distinct (map fst xs) \<Longrightarrow>
   map_of (fold (\<lambda>(sku, q) acc. setProperty sku (g (getProperty acc sku) q) acc) xs acc0) k =
     (case map_of xs k of
        None \<Rightarrow> map_of acc0 k
      | Some q \<Rightarrow> if k = ''__proto__'' then map_of acc0 k else Some (g (getProperty acc0 k) q))"
proof (induction xs arbitrary: acc0)
  case Nil
  then show ?case by simp
next
  case (Cons x xs)
  obtain s q where x: "x = (s, q)" by (cases x)
  from Cons.prems x have notin: "map_of xs s = None"
    by (simp add: map_of_eq_None_iff)
  from Cons.prems have d: "distinct (map fst xs)" by simp
  have same: "k \<noteq> s \<Longrightarrow> getProperty (setProperty s v acc0) k = getProperty acc0 k" for v
    by (simp add: getProperty_def setProperty_def update_conv')
  show ?case
    using Cons.IH [OF d] notin x same
    by (auto simp: update_conv' setProperty_def split: option.splits)
qed

lemma subtractOur_lookup:
  assumes "k \<notin> set objectPrototype"
  shows "map_of (subtractOur ours []) k =
     (case map_of ours k of None \<Rightarrow> None | Some q \<Rightarrow> Some (Num (0 - q)))"
proof -
  have "map_of (subtractOur ours []) k =
      (case map_of (AList.clearjunk ours) k of
         None \<Rightarrow> map_of [] k
       | Some q \<Rightarrow> if k = ''__proto__'' then map_of [] k
                   else Some (jsMinus (orZeroNumber (getProperty [] k)) q))"
    unfolding subtractOur_def entries_def
    using fold_setProperty_lookup
      [of "AList.clearjunk ours" "\<lambda>p q. jsMinus (orZeroNumber p) q" "[]" k]
    by simp
  moreover from assms have "k \<noteq> ''__proto__''" and "getProperty [] k = (Undefined :: number property)"
    by (auto simp: objectPrototype_def getProperty_def)
  ultimately show ?thesis
    by (simp add: map_of_clearjunk orZeroNumber_def jsMinus_def split: option.splits)
qed

lemma map_of_NumberValue:
  "map_of (map (\<lambda>(sku, n). (sku, NumberValue n)) d) k = map_option NumberValue (map_of d k)"
  by (induction d) auto

lemma addTheir_lookup:
  assumes "k \<notin> set objectPrototype"
  shows "map_of (addTheir theirs diff) k =
     (case map_of theirs k of
        None \<Rightarrow> map_of diff k
      | Some q \<Rightarrow>
          Some (jsPlus (orZero (case map_of diff k of None \<Rightarrow> Undefined | Some v \<Rightarrow> Own v)) q))"
proof -
  have "map_of (addTheir theirs diff) k =
      (case map_of (AList.clearjunk theirs) k of
         None \<Rightarrow> map_of diff k
       | Some q \<Rightarrow> if k = ''__proto__'' then map_of diff k
                   else Some (jsPlus (orZero (getProperty diff k)) q))"
    unfolding addTheir_def entries_def
    using fold_setProperty_lookup
      [of "AList.clearjunk theirs" "\<lambda>p q. jsPlus (orZero p) q" diff k]
    by simp
  moreover from assms have "k \<noteq> ''__proto__''"
    and "getProperty diff k = (case map_of diff k of None \<Rightarrow> Undefined | Some v \<Rightarrow> Own v)"
    by (auto simp: objectPrototype_def getProperty_def split: option.splits)
  ultimately show ?thesis
    by (simp add: map_of_clearjunk split: option.splits)
qed

text \<open>
  Without \<^verbatim>\<open>dict\<close> data the result is \<^verbatim>\<open>null\<close>, and two empty side dictionaries give
  the empty mapping.
\<close>

lemma getDiff_null_and_empty:
  "getDiff \<lparr>data_dict = None\<rparr> = None \<and>
   getDiff \<lparr>data_dict = Some \<lparr>our = [], their = []\<rparr>\<rparr> = Some []"
  by (simp add: getDiff_def addTheir_def subtractOur_def entries_def)

text \<open>
  For a key of either side that names no member of \<^verbatim>\<open>Object.prototype\<close>, the result
  binds their quantity minus our quantity, a missing quantity counting as 0.
\<close>

lemma getDiff_plain_keys:
  assumes "safeQuantities (our dict)" and "safeQuantities (their dict)"
    and "k \<notin> set objectPrototype"
    and "k \<in> fst ` set (our dict) \<union> fst ` set (their dict)"
  shows "\<exists>diff. getDiff \<lparr>data_dict = Some dict\<rparr> = Some diff \<and>
           map_of diff k = Some (NumberValue (Num (quantity (their dict) k - quantity (our dict) k)))"
proof -
  from assms(4) have "map_of (our dict) k \<noteq> None \<or> map_of (their dict) k \<noteq> None"
    by (auto simp: map_of_eq_None_iff)
  then show ?thesis
    using assms(3)
    by (auto simp: getDiff_def addTheir_lookup subtractOur_lookup map_of_NumberValue quantity_def
        orZero_def jsPlus_def split: option.splits)
qed

text \<open>
  C8 at a key that names a member of \<^verbatim>\<open>Object.prototype\<close>: with 3 of ours and 5 of
  theirs under \<^verbatim>\<open>toString\<close>, the first loop reads the inherited function and stores
  \<^verbatim>\<open>NaN\<close>, the second loop reads \<^verbatim>\<open>NaN || 0\<close> and stores 5. The result binds the key to
  5, not to their quantity minus ours, which is 2.
\<close>

theorem getDiff_inherited_member:
  "getDiff \<lparr>data_dict = Some \<lparr>our = [(''toString'', 3)], their = [(''toString'', 5)]\<rparr>\<rparr> =
     Some [(''toString'', NumberValue (Num 5))]"
  by (simp add: getDiff_def addTheir_def subtractOur_def entries_def setProperty_def
      getProperty_def objectPrototype_def orZero_def orZeroNumber_def jsMinus_def jsPlus_def)

section \<open>Properties of the reputation aggregator\<close>

lemmas run_defs =
  isBanned_def resultsFromAutobot_def fallbackChecks_def emit_def isListedUntrusted.simps
  isMptfBanned_def isBptfBanned_def bptfFailed_def isSteamRepMarked_def steamRepFailed_def
  promiseAll_def isRejected_def finalize_def validResults_def List.map_filter_def logIsBanned_def
  instanceofAbortSignal_def resp_untrusted_def someCached_def truthy_def denyByDefault_def
  subject_def newBans_def someOptions_def offline_def

subsection \<open>Which checks can reject\<close>

lemma never_rejected_untrusted: "\<not> isRejected (fst (isListedUntrusted a http self))"
  by (cases a)
     (auto simp: isListedUntrusted.simps [of _ http] isRejected_def Let_def
           split: sum.splits option.splits)

lemma never_rejected_steamrep: "\<not> isRejected (fst (isSteamRepMarked http self))"
  by (auto simp: isSteamRepMarked_def steamRepFailed_def isRejected_def Let_def
           split: sum.splits option.splits)

lemma never_rejected_bptf: "\<not> isRejected (fst (isBptfBanned http self))"
  by (auto simp: isBptfBanned_def bptfFailed_def isRejected_def Let_def
           split: sum.splits option.splits)

lemma scanResults_not_rejected: "\<not> isRejected (fst (scanResults rs self))"
  by (induction rs) (auto simp: isRejected_def Let_def)

lemma mptf_rejected_iff:
  "isRejected (fst (isMptfBanned http self)) \<longleftrightarrow>
     checkMptfBanned (bot self) \<and> mptfApiKey (bot self) = []"
  using scanResults_not_rejected
  by (auto simp: isMptfBanned_def isRejected_def Let_def emit_def split: sum.splits option.splits)

lemma mptf_rejected_value:
  "checkMptfBanned (bot self) \<Longrightarrow> mptfApiKey (bot self) = [] \<Longrightarrow>
   fst (isMptfBanned http self) = Rejected (Error ''Marketplace.tf API key was not set.'')"
  by (simp add: isMptfBanned_def emit_def)

lemma untrusted_bot: "bot (snd (isListedUntrusted a http self)) = bot self"
  by (cases a)
     (auto simp: isListedUntrusted.simps [of _ http] emit_def Let_def
           split: sum.splits option.splits)

lemma promiseAll_rejected_iff:
  "isRejected (promiseAll a b c d) \<longleftrightarrow> isRejected a \<or> isRejected b \<or> isRejected c \<or> isRejected d"
  by (auto simp: promiseAll_def isRejected_def split: promise.splits option.splits)

lemma promiseAll_only_second:
  "\<not> isRejected a \<Longrightarrow> \<not> isRejected c \<Longrightarrow> \<not> isRejected d \<Longrightarrow> b = Rejected e \<Longrightarrow>
   promiseAll a b c d = Rejected e"
  by (auto simp: promiseAll_def isRejected_def split: promise.splits option.splits)

lemma fallback_mptf:
  "\<exists>a c d s1. fst (fallbackChecks http self) = (a, fst (isMptfBanned http s1), c, d) \<and>
     bot s1 = bot self \<and> \<not> isRejected a \<and> \<not> isRejected c \<and> \<not> isRejected d"
proof -
  let ?u = "isListedUntrusted First http self"
  let ?m = "isMptfBanned http (snd ?u)"
  show ?thesis
  proof (cases "bptf_settles_first http")
    case True
    let ?b = "isBptfBanned http (snd ?m)"
    let ?s = "isSteamRepMarked http (snd ?b)"
    from True have "fst (fallbackChecks http self) = (fst ?u, fst ?m, fst ?s, fst ?b)"
      by (simp add: fallbackChecks_def split: prod.splits)
    then show ?thesis
      using untrusted_bot never_rejected_untrusted never_rejected_steamrep never_rejected_bptf
      by blast
  next
    case False
    let ?s = "isSteamRepMarked http (snd ?m)"
    let ?b = "isBptfBanned http (snd ?s)"
    from False have "fst (fallbackChecks http self) = (fst ?u, fst ?m, fst ?s, fst ?b)"
      by (simp add: fallbackChecks_def split: prod.splits)
    then show ?thesis
      using untrusted_bot never_rejected_untrusted never_rejected_steamrep never_rejected_bptf
      by blast
  qed
qed

lemma joined_rejected_iff:
  "isRejected (joined http self) \<longleftrightarrow> checkMptfBanned (bot self) \<and> mptfApiKey (bot self) = []"
  using fallback_mptf [of http self]
  by (auto simp: joined_def promiseAll_rejected_iff mptf_rejected_iff)

lemma joined_rejected_value:
  assumes "checkMptfBanned (bot self)" "mptfApiKey (bot self) = []"
  shows "joined http self = Rejected (Error ''Marketplace.tf API key was not set.'')"
proof -
  obtain a c d s1 where f: "fst (fallbackChecks http self) = (a, fst (isMptfBanned http s1), c, d)"
    and b: "bot s1 = bot self" and r: "\<not> isRejected a" "\<not> isRejected c" "\<not> isRejected d"
    using fallback_mptf by blast
  from assms b
  have "fst (isMptfBanned http s1) = Rejected (Error ''Marketplace.tf API key was not set.'')"
    by (simp add: mptf_rejected_value)
  with f r show ?thesis
    by (simp add: joined_def promiseAll_only_second)
qed

subsection \<open>The fallback path of \<^verbatim>\<open>isBanned\<close>\<close>

lemma isBanned_fallback:
  "fst (resultsFromAutobot http self) = Rejected e \<Longrightarrow>
   fst (isBanned http self) =
     (case joined http (snd (resultsFromAutobot http self)) of
        Fulfilled (u, m, s, b) \<Rightarrow>
          Fulfilled (fst (finalize \<lparr>src_bptf = b, src_mptf = m, src_steamrep = s, src_untrusted = u\<rparr>
                       (snd (fallbackChecks http (snd (resultsFromAutobot http self))))))
      | Pending \<Rightarrow> Pending
      | Rejected err \<Rightarrow>
          if \<not> someCached (snd (resultsFromAutobot http self))
          then Fulfilled \<lparr>ib_isBanned = False, ib_contents = None\<rparr>
          else Rejected err)"
  by (auto simp: isBanned_def joined_def split: prod.splits promise.splits)

lemma someCached_primary: "someCached (snd (resultsFromAutobot http self)) = someCached self"
  by (simp add: resultsFromAutobot_def someCached_def emit_def split: sum.splits)

lemma bot_primary: "bot (snd (resultsFromAutobot http self)) = bot self"
  by (simp add: resultsFromAutobot_def emit_def split: sum.splits)

text \<open>
  A run in which every request fails: the four checks are invoked, each logs its failure,
  and the deny-by-default result is logged as a ban.
\<close>

lemma isBanned_offline_trace:
  "trace (snd (isBanned offline subject)) =
     [Request RepAutobotTf_api,
      Invoked ListedUntrusted, Request UntrustedList,
      Log Warn ''Failed to get data from Github'', LogError Debug (AxiosError ''ECONNREFUSED''),
      Invoked MptfBanned, Request MarketplaceTf_api,
      Log Warn ''Failed to get data from Marketplace.tf'',
      Invoked BptfBanned, Request BackpackTf_api,
      Log Warn ''Failed to get data from backpack.tf'', LogError Debug (AxiosError ''ECONNREFUSED''),
      Invoked SteamRepMarked, Request SteamRep_api,
      Log Warn ''Failed to get data from SteamRep'', LogError Debug (AxiosError ''ECONNREFUSED''),
      Log Warn ''Bans result for 76561198000000001:'']"
  by (simp add: run_defs)

subsection \<open>C1: nothing resolved\<close>

text \<open>
  C1 as stated fails. With the primary call rejected, all four fallback checks resolved
  to \<^verbatim>\<open>undefined\<close> and no cached flag set, \<^verbatim>\<open>isBanned\<close> resolves with the deny-by-default
  result (banned, with the \<^verbatim>\<open>default-rule\<close> text), not with \<^verbatim>\<open>{isBanned: false}\<close>.
\<close>

theorem isBanned_all_undefined_counterexample:
  "fst (resultsFromAutobot offline subject) = Rejected (AxiosError ''ECONNREFUSED'') \<and>
   fst (fallbackChecks offline (snd (resultsFromAutobot offline subject))) =
     (Fulfilled None, Fulfilled None, Fulfilled None, Fulfilled None) \<and>
   \<not> someCached subject \<and>
   fst (isBanned offline subject) =
     Fulfilled \<lparr>ib_isBanned = True,
                ib_contents = Some [(''default-rule'',
                  Some ''all offline and online ban checks failed. internet issues?'')]\<rparr> \<and>
   fst (isBanned offline subject) \<noteq> Fulfilled \<lparr>ib_isBanned = False, ib_contents = None\<rparr>"
  by (simp add: run_defs)

text \<open>
  C1, amended. When the primary call is rejected and all four fallback checks resolve to
  \<^verbatim>\<open>undefined\<close>, \<^verbatim>\<open>isBanned\<close> resolves with the deny-by-default result, whatever the
  cached flags are. It resolves with \<^verbatim>\<open>{isBanned: false}\<close> and no per-site detail when the
  primary call is rejected, the join of the fallback checks rejects (the marketplace check
  is enabled and its API key is empty) and no cached flag is true.
\<close>

theorem isBanned_no_result:
  "(fst (resultsFromAutobot http self) = Rejected e \<longrightarrow>
    fst (fallbackChecks http (snd (resultsFromAutobot http self))) =
      (Fulfilled None, Fulfilled None, Fulfilled None, Fulfilled None) \<longrightarrow>
    fst (isBanned http self) = Fulfilled denyByDefault) \<and>
   (fst (resultsFromAutobot http' self') = Rejected e' \<longrightarrow>
    checkMptfBanned (bot self') \<longrightarrow> mptfApiKey (bot self') = [] \<longrightarrow> \<not> someCached self' \<longrightarrow>
    fst (isBanned http' self') = Fulfilled \<lparr>ib_isBanned = False, ib_contents = None\<rparr>)"
proof (intro conjI impI)
  assume "fst (resultsFromAutobot http self) = Rejected e"
    and "fst (fallbackChecks http (snd (resultsFromAutobot http self))) =
      (Fulfilled None, Fulfilled None, Fulfilled None, Fulfilled None)"
  then show "fst (isBanned http self) = Fulfilled denyByDefault"
    by (simp add: isBanned_fallback joined_def promiseAll_def isRejected_def finalize_def
        validResults_def List.map_filter_def)
next
  assume p: "fst (resultsFromAutobot http' self') = Rejected e'"
    and c: "checkMptfBanned (bot self')" "mptfApiKey (bot self') = []" "\<not> someCached self'"
  from c have "joined http' (snd (resultsFromAutobot http' self')) =
      Rejected (Error ''Marketplace.tf API key was not set.'')"
    by (simp add: joined_rejected_value bot_primary)
  with c show "fst (isBanned http' self') = Fulfilled \<lparr>ib_isBanned = False, ib_contents = None\<rparr>"
    by (simp add: isBanned_fallback [OF p] someCached_primary)
qed

theorem isBanned_no_result_witness:
  "fst (isBanned offline subject) = Fulfilled denyByDefault \<and>
   fst (isBanned offline (subject\<lparr>bot := someOptions\<lparr>mptfApiKey := []\<rparr>\<rparr>)) =
     Fulfilled \<lparr>ib_isBanned = False, ib_contents = None\<rparr>"
  using isBanned_no_result [of offline subject "AxiosError ''ECONNREFUSED''" offline
      "subject\<lparr>bot := someOptions\<lparr>mptfApiKey := []\<rparr>\<rparr>" "AxiosError ''ECONNREFUSED''"]
  by (simp add: run_defs)

subsection \<open>C2: when the call rejects\<close>

text \<open>
  C2 as stated fails. With the primary call rejected, every fallback request failed and the
  cached backpack.tf flag true, each check resolves to \<^verbatim>\<open>undefined\<close>, the join is
  fulfilled and \<^verbatim>\<open>isBanned\<close> resolves with the deny-by-default result: it does not reject.
\<close>

theorem isBanned_known_bad_counterexample:
  "fst (resultsFromAutobot offline (subject\<lparr>priv_isBptfBanned := Some True\<rparr>)) =
     Rejected (AxiosError ''ECONNREFUSED'') \<and>
   fst (fallbackChecks offline
          (snd (resultsFromAutobot offline (subject\<lparr>priv_isBptfBanned := Some True\<rparr>)))) =
     (Fulfilled None, Fulfilled None, Fulfilled None, Fulfilled None) \<and>
   someCached (subject\<lparr>priv_isBptfBanned := Some True\<rparr>) \<and>
   fst (isBanned offline (subject\<lparr>priv_isBptfBanned := Some True\<rparr>)) = Fulfilled denyByDefault \<and>
   \<not> isRejected (fst (isBanned offline (subject\<lparr>priv_isBptfBanned := Some True\<rparr>)))"
  by (simp add: run_defs)

text \<open>
  C2, amended. When the primary call is rejected, \<^verbatim>\<open>isBanned\<close> rejects exactly when the
  marketplace check is enabled with an empty API key (the one way the join of the fallback
  checks rejects) and at least one of the five cached flags is true, the marketplace flag
  counting only when that check is enabled; the error it rejects with is that of the
  missing key.
\<close>

theorem isBanned_rejects:
  assumes "fst (resultsFromAutobot http self) = Rejected e"
  shows "(isRejected (fst (isBanned http self)) \<longleftrightarrow>
            checkMptfBanned (bot self) \<and> mptfApiKey (bot self) = [] \<and> someCached self) \<and>
         (isRejected (fst (isBanned http self)) \<longrightarrow>
            fst (isBanned http self) = Rejected (Error ''Marketplace.tf API key was not set.''))"
proof (cases "checkMptfBanned (bot self) \<and> mptfApiKey (bot self) = []")
  case True
  then have "joined http (snd (resultsFromAutobot http self)) =
      Rejected (Error ''Marketplace.tf API key was not set.'')"
    by (simp add: joined_rejected_value bot_primary)
  with True show ?thesis
    by (simp add: isBanned_fallback [OF assms] someCached_primary isRejected_def)
next
  case False
  then have "\<not> isRejected (joined http (snd (resultsFromAutobot http self)))"
    by (simp add: joined_rejected_iff bot_primary)
  with False show ?thesis
    by (auto simp: isBanned_fallback [OF assms] isRejected_def split: promise.splits)
qed

theorem isBanned_rejects_witness:
  "fst (isBanned offline (subject\<lparr>priv_isBptfBanned := Some True,
                                  bot := someOptions\<lparr>mptfApiKey := []\<rparr>\<rparr>)) =
     Rejected (Error ''Marketplace.tf API key was not set.'')"
  using isBanned_rejects [of offline "subject\<lparr>priv_isBptfBanned := Some True,
                                  bot := someOptions\<lparr>mptfApiKey := []\<rparr>\<rparr>" "AxiosError ''ECONNREFUSED''"]
  by (simp add: resultsFromAutobot_def offline_def subject_def newBans_def someOptions_def
      someCached_def truthy_def)

subsection \<open>C3: the untrusted list and its retry\<close>

text \<open>
  C3 at two first-attempt failures. When the request is aborted the HTTP client rejects
  with an \<open>AxiosError\<close> (code \<^verbatim>\<open>ERR_CANCELED\<close>), which is no instance of \<^verbatim>\<open>AbortSignal\<close>:
  the check resolves to \<^verbatim>\<open>undefined\<close> after one request, without a retry. When the
  rejection value is an instance of \<^verbatim>\<open>AbortSignal\<close>, the second request is made, and when
  it fails too the promise returned by the first call is left pending: it neither
  resolves to \<^verbatim>\<open>undefined\<close> nor rejects.
\<close>

theorem isListedUntrusted_abort:
  "isListedUntrusted First (offline\<lparr>resp_untrusted_first := Inl (AxiosError ''ERR_CANCELED'')\<rparr>)
       subject =
     (Fulfilled None,
      subject\<lparr>trace := [Invoked ListedUntrusted, Request UntrustedList,
                         Log Warn ''Failed to get data from Github'',
                         LogError Debug (AxiosError ''ERR_CANCELED'')]\<rparr>) \<and>
   isListedUntrusted First (offline\<lparr>resp_untrusted_first := Inl AbortSignal,
                                    resp_untrusted_retry := Inl AbortSignal\<rparr>) subject =
     (Pending,
      subject\<lparr>trace := [Invoked ListedUntrusted, Request UntrustedList,
                         Invoked ListedUntrusted, Request UntrustedList,
                         Log Warn ''Failed to get data from Github'',
                         LogError Debug AbortSignal]\<rparr>)"
  by (simp add: run_defs)

subsection \<open>C4: the steamrep check\<close>

text \<open>
  C4 at a steamrep answer that has no \<^verbatim>\<open>reputation\<close>, hence no summary text containing
  "scammer": the check resolves with \<^verbatim>\<open>isBanned\<close> true and caches that flag.
\<close>

theorem isSteamRepMarked_no_reputation:
  "reputation (steamrep noReputation) = None \<and>
   fst (isSteamRepMarked (offline\<lparr>resp_steamrep := Inr noReputation\<rparr>) subject) =
     Fulfilled (Some \<lparr>sr_isBanned = True, sr_content = Some []\<rparr>) \<and>
   priv_isSteamRepBanned (snd (isSteamRepMarked (offline\<lparr>resp_steamrep := Inr noReputation\<rparr>) subject)) =
     Some True"
  by (simp add: run_defs noReputation_def)

text \<open>
  With a summary in the answer the flag says whether the lower-cased summary contains
  \<^verbatim>\<open>scammer\<close>.
\<close>

lemma indexOfFrom_found:
  "indexOfFrom i s pat \<noteq> - 1 \<longleftrightarrow> (\<exists>pre post. s = pre @ pat @ post)"
proof (induction s arbitrary: i)
  case Nil
  then show ?case by simp
next
  case (Cons c cs)
  show ?case
  proof (cases "take (length pat) (c # cs) = pat")
    case True
    then have "c # cs = [] @ pat @ drop (length pat) (c # cs)"
      by (metis append_Nil append_take_drop_id)
    then have "\<exists>pre post. c # cs = pre @ pat @ post" by blast
    with True show ?thesis by simp
  next
    case False
    have "(\<exists>pre post. c # cs = pre @ pat @ post) \<longleftrightarrow> (\<exists>pre post. cs = pre @ pat @ post)"
    proof
      assume "\<exists>pre post. c # cs = pre @ pat @ post"
      then obtain pre post where e: "c # cs = pre @ pat @ post" by blast
      show "\<exists>pre post. cs = pre @ pat @ post"
      proof (cases pre)
        case Nil
        with e have "take (length pat) (c # cs) = pat" by simp
        with False show ?thesis by simp
      next
        case (Cons a pre')
        with e have "cs = pre' @ pat @ post" by simp
        then show ?thesis by blast
      qed
    next
      assume "\<exists>pre post. cs = pre @ pat @ post"
      then obtain pre post where "cs = pre @ pat @ post" by blast
      then have "c # cs = (c # pre) @ pat @ post" by simp
      then show "\<exists>pre post. c # cs = pre @ pat @ post" by blast
    qed
    with False Cons.IH [of "Suc i"] show ?thesis by simp
  qed
qed

lemma isSteamRepMarked_summary:
  assumes "resp_steamrep http = Inr data" and "reputation (steamrep data) = Some rep"
    and "rep_summary rep = Some summary"
  shows "\<exists>r. fst (isSteamRepMarked http self) = Fulfilled (Some r) \<and>
           (sr_isBanned r \<longleftrightarrow> (\<exists>pre post. toLowerCase summary = pre @ ''scammer'' @ post))"
  using assms by (simp add: isSteamRepMarked_def Let_def indexOf_def indexOfFrom_found)

subsection \<open>C5 and C6: the primary call succeeds\<close>

text \<open>
  C5. When the primary call succeeds, the only effect of \<^verbatim>\<open>isBanned\<close> is the request to
  the primary service: none of the four fallback checks is invoked.
\<close>

theorem isBanned_primary_only:
  "resp_autobot http = Inr data \<Longrightarrow>
   trace (snd (isBanned http self)) = trace self @ [Request RepAutobotTf_api] \<and>
   (\<forall>c. Invoked c \<notin> set (drop (length (trace self)) (trace (snd (isBanned http self)))))"
  by (simp add: isBanned_def resultsFromAutobot_def emit_def)

theorem isBanned_primary_only_witness:
  "trace (snd (isBanned (offline\<lparr>resp_autobot := Inr primaryAnswer\<rparr>) subject)) =
     [Request RepAutobotTf_api]"
  using isBanned_primary_only [of "offline\<lparr>resp_autobot := Inr primaryAnswer\<rparr>" primaryAnswer subject]
  by (simp add: offline_def subject_def newBans_def)

lemma fold_banned_lookup:
  "distinct (map fst xs) \<Longrightarrow>
   map_of (fold (\<lambda>(site, entry) obj.
             case entry of
               Site r \<Rightarrow> if sr_isBanned r then AList.update site (sr_content r) obj else obj
             | _ \<Rightarrow> obj) xs acc) k =
     (case map_of xs k of
        None \<Rightarrow> map_of acc k
      | Some entry \<Rightarrow>
          (case entry of
             Site r \<Rightarrow> if sr_isBanned r then Some (sr_content r) else map_of acc k
           | _ \<Rightarrow> map_of acc k))"
proof (induction xs arbitrary: acc)
  case Nil
  then show ?case by simp
next
  case (Cons x xs)
  obtain s v where x: "x = (s, v)" by (cases x)
  from Cons.prems x have notin: "map_of xs s = None"
    by (simp add: map_of_eq_None_iff)
  from Cons.prems have d: "distinct (map fst xs)" by simp
  show ?case
    using Cons.IH [OF d] notin x
    by (auto simp: update_conv' split: option.splits SiteEntry.splits)
qed

lemma bannedContents_lookup:
  "map_of (bannedContents cs) site =
     (case map_of cs site of
        None \<Rightarrow> None
      | Some entry \<Rightarrow>
          (case entry of
             Site r \<Rightarrow> if sr_isBanned r then Some (sr_content r) else None
           | _ \<Rightarrow> None))"
  unfolding bannedContents_def entries_def
  by (simp add: fold_banned_lookup map_of_clearjunk split: option.splits SiteEntry.splits)

text \<open>
  C6. When the primary call succeeds, the returned \<^verbatim>\<open>isBanned\<close> is the response's
  \<^verbatim>\<open>isBanned\<close> when the marketplace check is enabled and its \<^verbatim>\<open>isBannedExcludeMptf\<close>
  otherwise, and the returned contents bind exactly the sites whose entry is a result
  (not \<^verbatim>\<open>Error\<close>) with \<^verbatim>\<open>isBanned\<close> true, each to that entry's content.
\<close>

theorem isBanned_primary_result:
  assumes "resp_autobot http = Inr data"
  shows "\<exists>cs. fst (isBanned http self) =
           Fulfilled \<lparr>ib_isBanned = (if checkMptfBanned (bot self) then rep_isBanned data
                                      else rep_isBannedExcludeMptf data),
                      ib_contents = Some cs\<rparr> \<and>
         (\<forall>site. map_of cs site =
            (case map_of (rep_contents data) site of
               None \<Rightarrow> None
             | Some entry \<Rightarrow>
                 (case entry of
                    Site r \<Rightarrow> if sr_isBanned r then Some (sr_content r) else None
                  | _ \<Rightarrow> None)))"
  using assms
  by (simp add: isBanned_def resultsFromAutobot_def emit_def bannedContents_lookup)

theorem isBanned_primary_result_witness:
  "fst (isBanned (offline\<lparr>resp_autobot := Inr primaryAnswer\<rparr>) subject) =
     Fulfilled \<lparr>ib_isBanned = True, ib_contents = Some [(''Marketplace.tf'', Some ''seller ban'')]\<rparr> \<and>
   fst (isBanned (offline\<lparr>resp_autobot := Inr primaryAnswer\<rparr>)
          (subject\<lparr>bot := someOptions\<lparr>checkMptfBanned := False\<rparr>\<rparr>)) =
     Fulfilled \<lparr>ib_isBanned = False, ib_contents = Some [(''Marketplace.tf'', Some ''seller ban'')]\<rparr>"
  using isBanned_primary_result [of "offline\<lparr>resp_autobot := Inr primaryAnswer\<rparr>" primaryAnswer subject]
    isBanned_primary_result [of "offline\<lparr>resp_autobot := Inr primaryAnswer\<rparr>" primaryAnswer
       "subject\<lparr>bot := someOptions\<lparr>checkMptfBanned := False\<rparr>\<rparr>"]
  by (simp add: run_defs primaryAnswer_def bannedContents_def entries_def)

subsection \<open>C7: the merge\<close>

text \<open>
  C7 as stated fails. The marketplace check is enabled with an empty API key, so it
  rejects and the join with it; the untrusted-list check resolves with a ban, the other
  two with \<^verbatim>\<open>undefined\<close>. No merge takes place: with no cached flag set, \<^verbatim>\<open>isBanned\<close>
  resolves with \<^verbatim>\<open>{isBanned: false}\<close>.
\<close>

theorem isBanned_merge_counterexample:
  "fst (resultsFromAutobot (offline\<lparr>resp_untrusted_first := Inr listed\<rparr>)
          (subject\<lparr>bot := someOptions\<lparr>mptfApiKey := []\<rparr>\<rparr>)) = Rejected (AxiosError ''ECONNREFUSED'') \<and>
   fst (fallbackChecks (offline\<lparr>resp_untrusted_first := Inr listed\<rparr>)
          (snd (resultsFromAutobot (offline\<lparr>resp_untrusted_first := Inr listed\<rparr>)
                  (subject\<lparr>bot := someOptions\<lparr>mptfApiKey := []\<rparr>\<rparr>)))) =
     (Fulfilled (Some \<lparr>sr_isBanned = True, sr_content = Some ''Reason: scam - Source: report''\<rparr>),
      Rejected (Error ''Marketplace.tf API key was not set.''),
      Fulfilled None, Fulfilled None) \<and>
   fst (isBanned (offline\<lparr>resp_untrusted_first := Inr listed\<rparr>)
          (subject\<lparr>bot := someOptions\<lparr>mptfApiKey := []\<rparr>\<rparr>)) =
     Fulfilled \<lparr>ib_isBanned = False, ib_contents = None\<rparr>"
  by (simp add: run_defs listed_def)

text \<open>
  C7, amended. When the primary call is rejected, each of the four fallback checks
  resolves (none rejects or stays pending) and at least one of the results is not
  \<^verbatim>\<open>undefined\<close>, \<^verbatim>\<open>isBanned\<close> resolves with the merged result, whose \<^verbatim>\<open>isBanned\<close> is the
  logical OR of the \<^verbatim>\<open>isBanned\<close> flags of the results that are not \<^verbatim>\<open>undefined\<close>; so one
  result with a ban makes the final \<^verbatim>\<open>isBanned\<close> true.
\<close>

theorem isBanned_merge:
  assumes "fst (resultsFromAutobot http self) = Rejected e"
    and "fst (fallbackChecks http (snd (resultsFromAutobot http self))) =
           (Fulfilled u, Fulfilled m, Fulfilled s, Fulfilled b)"
    and "u \<noteq> None \<or> m \<noteq> None \<or> s \<noteq> None \<or> b \<noteq> None"
  shows "\<exists>result. fst (isBanned http self) = Fulfilled result \<and>
           ib_isBanned result = (\<exists>r. Some r \<in> {u, m, s, b} \<and> sr_isBanned r)"
proof -
  let ?rs = "\<lparr>src_bptf = b, src_mptf = m, src_steamrep = s, src_untrusted = u\<rparr>"
  let ?s4 = "snd (fallbackChecks http (snd (resultsFromAutobot http self)))"
  have j: "joined http (snd (resultsFromAutobot http self)) = Fulfilled (u, m, s, b)"
    using assms(2) by (simp add: joined_def promiseAll_def isRejected_def)
  have r: "fst (isBanned http self) = Fulfilled (fst (finalize ?rs ?s4))"
    by (simp add: isBanned_fallback [OF assms(1)] j)
  have v: "set (validResults ?rs) = {r. Some r \<in> {u, m, s, b}}"
    by (auto simp: validResults_def List.map_filter_def)
  from assms(3) have ne: "validResults ?rs \<noteq> []"
    by (auto simp: validResults_def List.map_filter_def)
  have "ib_isBanned (fst (finalize ?rs ?s4)) = list_ex sr_isBanned (validResults ?rs)"
    using ne by (simp add: finalize_def Let_def)
  also have "\<dots> = (\<exists>r. Some r \<in> {u, m, s, b} \<and> sr_isBanned r)"
    unfolding list_ex_iff v by blast
  finally show ?thesis using r by blast
qed

theorem isBanned_merge_witness:
  "\<exists>result. fst (isBanned (offline\<lparr>resp_untrusted_first := Inr listed\<rparr>) subject) = Fulfilled result \<and>
     ib_isBanned result"
  using isBanned_merge [of "offline\<lparr>resp_untrusted_first := Inr listed\<rparr>" subject
     "AxiosError ''ECONNREFUSED''"
     "Some \<lparr>sr_isBanned = True, sr_content = Some ''Reason: scam - Source: report''\<rparr>" None None None]
  by (simp add: run_defs listed_def)

subsection \<open>C10: the marketplace answers about others only\<close>

lemma scanResults_absent:
  "\<forall>r \<in> set rs. mr_steamid r \<noteq> steamID self \<Longrightarrow>
   scanResults rs self = (Fulfilled (Some \<lparr>sr_isBanned = False, sr_content = None\<rparr>), self)"
  by (induction rs) auto

text \<open>
  C10. With the marketplace check enabled, a non-empty API key and an answer whose
  \<^verbatim>\<open>results\<close> array has no entry for the subject, \<^verbatim>\<open>isMptfBanned\<close> resolves with
  \<^verbatim>\<open>{isBanned: false}\<close> (checked, clean), not with \<^verbatim>\<open>undefined\<close>, and leaves the cached
  marketplace flag as it was.
\<close>

theorem isMptfBanned_not_listed:
  assumes "checkMptfBanned (bot self)" and "mptfApiKey (bot self) \<noteq> []"
    and "resp_mptf http = Inr (Some data)" and "mptf_results data = Some results"
    and "\<forall>r \<in> set results. mr_steamid r \<noteq> steamID self"
  shows "fst (isMptfBanned http self) = Fulfilled (Some \<lparr>sr_isBanned = False, sr_content = None\<rparr>) \<and>
         priv_isMptfBanned (snd (isMptfBanned http self)) = priv_isMptfBanned self"
  using assms by (simp add: isMptfBanned_def emit_def scanResults_absent)

theorem isMptfBanned_not_listed_witness:
  "fst (isMptfBanned (offline\<lparr>resp_mptf := Inr (Some otherSeller)\<rparr>)
          (subject\<lparr>priv_isMptfBanned := Some True\<rparr>)) =
     Fulfilled (Some \<lparr>sr_isBanned = False, sr_content = None\<rparr>) \<and>
   priv_isMptfBanned (snd (isMptfBanned (offline\<lparr>resp_mptf := Inr (Some otherSeller)\<rparr>)
                              (subject\<lparr>priv_isMptfBanned := Some True\<rparr>))) = Some True"
  using isMptfBanned_not_listed [of "subject\<lparr>priv_isMptfBanned := Some True\<rparr>"
      "offline\<lparr>resp_mptf := Inr (Some otherSeller)\<rparr>" otherSeller
      "[\<lparr>mr_steamid = ''76561198000000002'', mr_id = 7, mr_name = ''other'',
               mr_banned = Some True, mr_ban = Some \<lparr>ban_time = 1, ban_type = ''seller''\<rparr>,
               mr_seller = True\<rparr>]"]
  by (simp add: offline_def subject_def newBans_def someOptions_def otherSeller_def)

section \<open>Properties of the socket client\<close>

text \<open>
  C9. After \<^verbatim>\<open>init\<close>, an error event with the message \<^verbatim>\<open>Unexpected server response: 401\<close>
  closes the connection, calls \<^verbatim>\<open>setupToken\<close> once and then reconnects; when the token
  refresh is rejected it reconnects all the same and logs the error of the refresh. An
  error event with any other message closes the connection and logs the event, without a
  token refresh.
\<close>

theorem socketError_unauthorized:
  "receive (ErrorEvent ''Unexpected server response: 401'') (Fulfilled ()) (init self) =
     Inr (act [WsClose, SetupToken, WsReconnect] (init self)) \<and>
   receive (ErrorEvent ''Unexpected server response: 401'') (Rejected e) (init self) =
     Inr (act [WsClose, SetupToken, WsReconnect,
               LoggerError ''Error in prices.tf socket manager'' (OfError e)] (init self)) \<and>
   (message \<noteq> ''Unexpected server response: 401'' \<longrightarrow>
      receive (ErrorEvent message) token (init self) =
        Inr (act [WsClose, LoggerError ''Error in prices.tf socket manager'' (OfEvent message)]
               (init self)))"
  by (simp add: receive_def init_def eventName_def runListener_def socketError_def act_def Let_def)

theorem socketError_unauthorized_witness:
  "receive (ErrorEvent ''Unexpected server response: 500'') (Fulfilled ()) (init freshSocket) =
     Inr ((init freshSocket)\<lparr>effects := [WsClose, LoggerError ''Error in prices.tf socket manager''
                                            (OfEvent ''Unexpected server response: 500'')]\<rparr>) \<and>
   receive (ErrorEvent ''Unexpected server response: 401'') (Rejected (AxiosError ''ERR_BAD_REQUEST''))
       (init freshSocket) =
     Inr ((init freshSocket)\<lparr>effects := [WsClose, SetupToken, WsReconnect,
            LoggerError ''Error in prices.tf socket manager'' (OfError (AxiosError ''ERR_BAD_REQUEST''))]\<rparr>)"
  using socketError_unauthorized [of freshSocket "AxiosError ''ERR_BAD_REQUEST''"
      "''Unexpected server response: 500''" "Fulfilled ()"]
  by (simp add: act_def init_def shutDown_def freshSocket_def)

end
